theory Spec2Isabelle
  imports Complex_Main "HOL-Library.AList"
begin

section \<open>Host-language values and their textual form\<close>

text \<open>
  The helper module \<^verbatim>\<open>py_interface/ns3_util.py\<close> works on Python dictionaries whose
  keys are parameter names and whose values are numbers, strings or lists of those.
  A dictionary is an association list in insertion order; a \<^typ>\<open>char\<close> stands for one
  character of a Python string.
\<close>

datatype pyval = VInt int | VStr string | VList "pyval list"

type_synonym setting_map = "(string \<times> pyval) list"

definition digit_char :: "nat \<Rightarrow> char" where
  "digit_char d = ''0123456789abcdef'' ! d"

fun str_nat :: "nat \<Rightarrow> string" where
  "str_nat n = (if n < 10 then [digit_char n] else str_nat (n div 10) @ [digit_char (n mod 10)])"

declare str_nat.simps [simp del]

definition str_int :: "int \<Rightarrow> string" where
  "str_int i = (if i < 0 then CHR ''-'' # str_nat (nat (- i)) else str_nat (nat i))"

text \<open>\<^verbatim>\<open>sep.join(parts)\<close>\<close>

fun join :: "string \<Rightarrow> string list \<Rightarrow> string" where
  "join sep [] = []"
| "join sep [x] = x"
| "join sep (x # y # ys) = x @ sep @ join sep (y # ys)"

text \<open>
  \<^verbatim>\<open>repr\<close> of a string: single quotes unless the text holds a single quote and no double
  quote; the quote and the backslash are escaped, tab, newline and carriage return get
  their letter escapes, every other non-printable character below 256 is written
  \<^verbatim>\<open>\xhh\<close>.
\<close>

definition printable :: "char \<Rightarrow> bool" where
  "printable c = (let n = of_char c :: nat in (32 \<le> n \<and> n < 127) \<or> (161 \<le> n \<and> n \<noteq> 173))"

definition repr_char :: "char \<Rightarrow> char \<Rightarrow> string" where
  "repr_char quote c =
     (if c = quote \<or> c = CHR 0x5C then [CHR 0x5C, c]
      else if c = CHR 0x09 then [CHR 0x5C, CHR ''t'']
      else if c = CHR 0x0A then [CHR 0x5C, CHR ''n'']
      else if c = CHR 0x0D then [CHR 0x5C, CHR ''r'']
      else if printable c then [c]
      else [CHR 0x5C, CHR ''x'', digit_char (of_char c div 16), digit_char (of_char c mod 16)])"

definition repr_str :: "string \<Rightarrow> string" where
  "repr_str s =
     (let quote = (if CHR 0x27 \<in> set s \<and> CHR 0x22 \<notin> set s then CHR 0x22 else CHR 0x27)
      in [quote] @ concat (map (repr_char quote) s) @ [quote])"

fun py_repr :: "pyval \<Rightarrow> string" where
  "py_repr (VInt i) = str_int i"
| "py_repr (VStr s) = repr_str s"
| "py_repr (VList vs) = ''['' @ join '', '' (map py_repr vs) @ '']''"

text \<open>\<^verbatim>\<open>'{}'.format(v)\<close>: a string is inserted as it is, anything else through its \<^verbatim>\<open>repr\<close>.\<close>

definition py_str :: "pyval \<Rightarrow> string" where
  "py_str v = (case v of VStr s \<Rightarrow> s | _ \<Rightarrow> py_repr v)"

text \<open>
  \<^verbatim>\<open>isinstance(value, Iterable)\<close> and the iteration that follows: a number is not
  iterable, a list yields its elements, a string yields its characters as one-character
  strings.
\<close>

definition py_iter :: "pyval \<Rightarrow> pyval list option" where
  "py_iter v = (case v of VInt _ \<Rightarrow> None
                | VStr s \<Rightarrow> Some (map (\<lambda>c. VStr [c]) s)
                | VList vs \<Rightarrow> Some vs)"

text \<open>\<^verbatim>\<open>s.strip('_')\<close>\<close>

definition strip_us :: "string \<Rightarrow> string" where
  "strip_us s = rev (dropWhile (\<lambda>c. c = CHR ''_'') (rev (dropWhile (\<lambda>c. c = CHR ''_'') s)))"

text \<open>\<^verbatim>\<open>needle in haystack\<close> on strings\<close>

fun starts_with :: "string \<Rightarrow> string \<Rightarrow> bool" where
  "starts_with [] s = True"
| "starts_with (p # ps) [] = False"
| "starts_with (p # ps) (c # cs) = (p = c \<and> starts_with ps cs)"

fun contains :: "string \<Rightarrow> string \<Rightarrow> bool" where
  "contains needle [] = (needle = [])"
| "contains needle (c # cs) = (starts_with needle (c # cs) \<or> contains needle cs)"


section \<open>Settings Expander and Single-Setting Formatter\<close>

text \<open>
  \<^verbatim>\<open>get_settings\<close> (lines 95--108). \<^verbatim>\<open>popitem\<close> removes the entry inserted last, so the
  recursion runs on \<^term>\<open>butlast m\<close> and the popped entry is \<^term>\<open>last m\<close>. The result is
  the list of (command fragment, file-name fragment) pairs and the file-name format.
\<close>

definition values_of :: "pyval \<Rightarrow> pyval list" where
  "values_of v = (case py_iter v of None \<Rightarrow> [v] | Some vs \<Rightarrow> vs)"

fun get_settings :: "setting_map \<Rightarrow> (string \<times> string) list \<times> string" where
  "get_settings setting_map =
     (if setting_map = [] then ([('''', '''')], '''')
      else
        let (key, val) = last setting_map;
            (ret, file_name_format) = get_settings (butlast setting_map);
            file_name_format = file_name_format @ ''_'' @ key;
            newret = concat (map (\<lambda>v. map (\<lambda>(precmd, prefn).
                       (precmd @ '' --'' @ key @ ''='' @ py_str v,
                        strip_us (prefn @ ''_'' @ py_str v))) ret) (values_of val))
        in (newret, strip_us file_name_format))"

declare get_settings.simps [simp del]

text \<open>\<^verbatim>\<open>get_setting\<close> (lines 111--115): the loop appends one fragment per entry.\<close>

definition get_setting :: "setting_map \<Rightarrow> string" where
  "get_setting setting_map =
     foldl (\<lambda>ret (key, val). ret @ '' --'' @ key @ ''='' @ py_str val) '''' setting_map"

text \<open>
  One step of the inner loop of \<^verbatim>\<open>get_settings\<close>, named so that properties can speak
  about it: the pair built from an earlier pair, a key and one of its values.
\<close>

definition extend_pair :: "string \<Rightarrow> pyval \<Rightarrow> string \<times> string \<Rightarrow> string \<times> string" where
  "extend_pair key v = (\<lambda>(precmd, prefn).
     (precmd @ '' --'' @ key @ ''='' @ py_str v, strip_us (prefn @ ''_'' @ py_str v)))"

text \<open>
  The number of values the code iterates for a setting: one for a value that is not
  iterable, the number of elements for a list, the number of characters for a string.
\<close>

definition cardinality :: "pyval \<Rightarrow> nat" where
  "cardinality v = (case v of VInt _ \<Rightarrow> 1 | VStr s \<Rightarrow> length s | VList vs \<Rightarrow> length vs)"

text \<open>
  The cardinality as the specification words it, where a setting value is either a
  scalar or a list of candidate values: a list counts its elements, a scalar (a number
  or a string) counts as one.
\<close>

definition cardinality_spec :: "pyval \<Rightarrow> nat" where
  "cardinality_spec v = (case v of VList vs \<Rightarrow> length vs | _ \<Rightarrow> 1)"

text \<open>
  The order of the expansion as the specification words it, to be compared with
  \<^const>\<open>get_settings\<close>. The keys of \<open>later\<close> were inserted after \<open>k\<close>, so \<^verbatim>\<open>popitem\<close>
  removes them before \<open>k\<close>: they are handled at shallower recursion levels. The outer
  loop ranges over their combinations, the inner loop over the values of \<open>k\<close>.
  A combination lists one chosen value per key, in insertion order.
\<close>

fun combinations_spec :: "setting_map \<Rightarrow> (string \<times> pyval) list list" where
  "combinations_spec [] = [[]]"
| "combinations_spec ((k, v) # later) =
     concat (map (\<lambda>c. map (\<lambda>x. (k, x) # c) (values_of v)) (combinations_spec later))"

text \<open>The pair of fragments of one combination: each chosen value appended in turn.\<close>

definition render :: "(string \<times> pyval) list \<Rightarrow> string \<times> string" where
  "render c = foldl (\<lambda>p (k, x). extend_pair k x p) ('''', '''') c"


section \<open>CPU Probe\<close>

text \<open>
  \<^verbatim>\<open>get_free_cpu\<close> (lines 60--61). The per-core sample that \<^verbatim>\<open>psutil.cpu_percent\<close>
  returns and the core count are inputs; utilisation values are compared only, so any
  linear order stands for them. \<^verbatim>\<open>sorted\<close> is stable, as \<^const>\<open>sort_key\<close> is.
\<close>

definition get_free_cpu :: "nat \<Rightarrow> 'u::linorder \<Rightarrow> 'u list \<Rightarrow> (nat \<times> 'u) list" where
  "get_free_cpu cpu_num perc sample =
     sort_key snd (filter (\<lambda>x. snd x < perc) (zip [0..<cpu_num] sample))"


section \<open>Bulk Launch Scheduler\<close>

definition RESERVE_CPU :: nat where
  "RESERVE_CPU = 4"

text \<open>
  What \<^verbatim>\<open>run_bulk_ns3\<close> does to the outside: how many utilisation samples it has taken,
  how many seconds it has slept, and the commands it has handed to \<^verbatim>\<open>os.system\<close>.
\<close>

record sched_state =
  polls :: nat
  slept :: nat
  issued :: "string list"

text \<open>
  The wait loop of lines 172--173. Its body sleeps and does nothing else: \<open>cpus\<close> is the
  same list at every test of the condition. The loop may run forever, so the result is
  an option and \<^const>\<open>None\<close> stands for a call that does not return.
\<close>

partial_function (option) wait_cpus :: "(nat \<times> real) list \<Rightarrow> sched_state \<Rightarrow> sched_state option" where
  "wait_cpus cpus s =
     (if length cpus < RESERVE_CPU then wait_cpus cpus (s\<lparr>slept := slept s + 5\<rparr>)
      else Some s)"

text \<open>
  The launch loop of lines 170--176. \<open>cpu_percent k\<close> is the sample the \<open>k\<close>-th call of
  the probe measures. After the wait loop \<open>cpus\<close> has at least four entries, so
  \<^verbatim>\<open>cpus[0][0]\<close> is the core of its first entry.
\<close>

fun launch_loop :: "nat \<Rightarrow> (nat \<Rightarrow> real list) \<Rightarrow> string \<Rightarrow> string \<Rightarrow> (string \<times> string) list
    \<Rightarrow> sched_state \<Rightarrow> sched_state option" where
  "launch_loop cpu_num cpu_percent pname common_setting_param [] s = Some s"
| "launch_loop cpu_num cpu_percent pname common_setting_param ((args, fn) # rest) s =
     (let cpus = get_free_cpu cpu_num 20 (cpu_percent (polls s));
          s1 = s\<lparr>polls := Suc (polls s)\<rparr>
      in case wait_cpus cpus s1 of
           None \<Rightarrow> None
         | Some s2 \<Rightarrow>
             let cmd = ''taskset -c '' @ str_nat (fst (cpus ! 0)) @ '' nohup ./waf --run '' @ pname
                       @ common_setting_param @ args @ '' > '' @ fn @ ''&''
             in launch_loop cpu_num cpu_percent pname common_setting_param rest
                  (s2\<lparr>issued := issued s2 @ [cmd]\<rparr>))"

definition run_bulk_ns3 :: "nat \<Rightarrow> (nat \<Rightarrow> real list) \<Rightarrow> string \<Rightarrow> string \<Rightarrow> setting_map
    \<Rightarrow> setting_map list \<Rightarrow> bool \<Rightarrow> sched_state \<Rightarrow> sched_state option" where
  "run_bulk_ns3 cpu_num cpu_percent path pname commons settings debug s =
     (let common_setting_param = get_setting commons;
          params = concat (map (\<lambda>smap. fst (get_settings smap)) settings);
          fname_format = map (\<lambda>smap. snd (get_settings smap)) settings
      in launch_loop cpu_num cpu_percent pname common_setting_param params s)"

text \<open>The state before a call, and the input at which the wait loop is examined below.\<close>

definition fresh :: sched_state where
  "fresh = \<lparr>polls = 0, slept = 0, issued = []\<rparr>"

definition busy_then_idle :: "nat \<Rightarrow> real list" where
  "busy_then_idle k = (if k = 0 then [50, 0, 0, 0] else [0, 0, 0, 0])"


section \<open>Process Tree Reaper\<close>

text \<open>
  \<^verbatim>\<open>kill_proc_tree\<close> (lines 64--92) talks to the process table through the psutil
  library. A process can disappear between any two calls, so a handle carries the
  outcome of each call the reaper may make on it: asking its name, sending the
  termination signal, waiting ten seconds for its exit, killing it.
\<close>

datatype ps_error = NoSuchProcess | AccessDenied | TimeoutExpired

record proc =
  pid :: nat
  name_result :: "ps_error + string"
  term_result :: "ps_error + unit"
  wait_result :: "ps_error + unit"
  kill_result :: "ps_error + unit"

datatype ps_event = Print string | SigTerm nat | Waited nat | Killed nat

text \<open>The argument: a process id, a psutil handle, or another object with a \<^verbatim>\<open>pid\<close>.\<close>

datatype proc_ref = Pid nat | Handle proc | Other nat

text \<open>
  The library calls outside the loop: \<^verbatim>\<open>psutil.Process(pid)\<close>, which raises when no
  process has that id, \<^verbatim>\<open>children(recursive=True)\<close>, and which processes
  \<^verbatim>\<open>wait_procs\<close> finds gone within the timeout.
\<close>

record ps_world =
  process :: "nat \<Rightarrow> ps_error + proc"
  children :: "nat \<Rightarrow> ps_error + proc list"
  gone :: "nat option \<Rightarrow> nat \<Rightarrow> bool"

type_synonym 'a outcome = "ps_event list \<times> (ps_error + 'a)"

text \<open>Lines 74--77, the body of the inner \<^verbatim>\<open>try\<close>.\<close>

definition perf_graceful :: "proc \<Rightarrow> unit outcome" where
  "perf_graceful c =
     (let ev = [Print (''Terminating `perf` process: PID='' @ str_nat (pid c))] in
      case term_result c of
        Inl e \<Rightarrow> (ev, Inl e)
      | Inr _ \<Rightarrow>
          (case wait_result c of
             Inl e \<Rightarrow> (ev @ [SigTerm (pid c)], Inl e)
           | Inr _ \<Rightarrow>
               (ev @ [SigTerm (pid c), Waited (pid c),
                      Print (''`perf` process (PID='' @ str_nat (pid c) @ '') terminated successfully.'')],
                Inr ())))"

text \<open>Lines 79--85, the handler of \<^verbatim>\<open>TimeoutExpired\<close>.\<close>

definition perf_escalate :: "proc \<Rightarrow> unit outcome" where
  "perf_escalate c =
     (let ev = [Print (''`perf` process (PID='' @ str_nat (pid c) @ '') did not terminate with SIGTERM.''),
                Print (''Sending SIGKILL to `perf` process: PID='' @ str_nat (pid c))] in
      case kill_result c of
        Inl e \<Rightarrow>
          (if e = NoSuchProcess
           then (ev @ [Print (''`perf` process (PID='' @ str_nat (pid c) @ '') no longer exists.'')], Inr ())
           else (ev, Inl e))
      | Inr _ \<Rightarrow> (ev @ [Killed (pid c)], Inr ()))"

text \<open>Lines 73--85: the inner \<^verbatim>\<open>try\<close> catches \<^verbatim>\<open>TimeoutExpired\<close> and nothing else.\<close>

definition perf_branch :: "proc \<Rightarrow> unit outcome" where
  "perf_branch c =
     (case perf_graceful c of
        (ev, Inl e) \<Rightarrow>
          (if e = TimeoutExpired
           then (let (ev2, r) = perf_escalate c in (ev @ ev2, r))
           else (ev, Inl e))
      | (ev, Inr u) \<Rightarrow> (ev, Inr u))"

text \<open>Lines 72--87, the body of the outer \<^verbatim>\<open>try\<close>.\<close>

definition try_body :: "proc \<Rightarrow> unit outcome" where
  "try_body c =
     (case name_result c of
        Inl e \<Rightarrow> ([], Inl e)
      | Inr nm \<Rightarrow>
          if contains ''perf'' nm then perf_branch c
          else (case kill_result c of
                  Inl e \<Rightarrow> ([], Inl e)
                | Inr _ \<Rightarrow> ([Killed (pid c)], Inr ())))"

text \<open>Lines 71--89: the outer \<^verbatim>\<open>try\<close> catches \<^verbatim>\<open>NoSuchProcess\<close> and goes on.\<close>

definition loop_body :: "proc \<Rightarrow> unit outcome" where
  "loop_body c =
     (case try_body c of
        (ev, Inl e) \<Rightarrow> (if e = NoSuchProcess then (ev, Inr ()) else (ev, Inl e))
      | (ev, Inr u) \<Rightarrow> (ev, Inr u))"

fun kill_loop :: "proc list \<Rightarrow> unit outcome" where
  "kill_loop [] = ([], Inr ())"
| "kill_loop (c # cs) =
     (case loop_body c of
        (ev, Inl e) \<Rightarrow> (ev, Inl e)
      | (ev, Inr _) \<Rightarrow> (let (ev2, r) = kill_loop cs in (ev @ ev2, r)))"

definition wait_procs :: "ps_world \<Rightarrow> proc list \<Rightarrow> nat option \<Rightarrow> proc list \<times> proc list" where
  "wait_procs w ch timeout =
     (filter (\<lambda>c. gone w timeout (pid c)) ch, filter (\<lambda>c. \<not> gone w timeout (pid c)) ch)"

text \<open>Lines 65--68: a process id or a foreign object is turned into a handle.\<close>

definition to_process :: "ps_world \<Rightarrow> proc_ref \<Rightarrow> ps_error + proc" where
  "to_process w p = (case p of Pid n \<Rightarrow> process w n | Handle h \<Rightarrow> Inr h | Other n \<Rightarrow> process w n)"

definition kill_proc_tree :: "ps_world \<Rightarrow> proc_ref \<Rightarrow> nat option \<Rightarrow> (proc list \<times> proc list) outcome" where
  "kill_proc_tree w p timeout =
     (case to_process w p of
        Inl e \<Rightarrow> ([], Inl e)
      | Inr p \<Rightarrow>
          (case children w (pid p) of
             Inl e \<Rightarrow> ([], Inl e)
           | Inr kids \<Rightarrow>
               let ch = [p] @ kids in
               case kill_loop ch of
                 (ev, Inl e) \<Rightarrow> (ev, Inl e)
               | (ev, Inr _) \<Rightarrow> (ev, Inr (wait_procs w ch timeout))))"

text \<open>
  A process is gone at the moment of an action when the first call on it that does not
  succeed reports \<^const>\<open>NoSuchProcess\<close>; the timeout of the ten-second wait is not such a
  failure, it leads to the kill, which may find the process gone in turn.
\<close>

definition vanished_at_action :: "proc \<Rightarrow> bool" where
  "vanished_at_action c =
     (case name_result c of
        Inl e \<Rightarrow> e = NoSuchProcess
      | Inr nm \<Rightarrow>
          if contains ''perf'' nm
          then (case term_result c of
                  Inl e \<Rightarrow> e = NoSuchProcess
                | Inr _ \<Rightarrow>
                    (case wait_result c of
                       Inl e \<Rightarrow> e = NoSuchProcess
                               \<or> (e = TimeoutExpired \<and> kill_result c = Inl NoSuchProcess)
                     | Inr _ \<Rightarrow> False))
          else kill_result c = Inl NoSuchProcess)"

text \<open>
  A process table in which process 7 has exited before the call, and a profiler that
  ignores the termination signal and exits just before it is killed.
\<close>

definition ghost_perf :: proc where
  "ghost_perf = \<lparr>pid = 11, name_result = Inr ''perf'', term_result = Inr (),
                 wait_result = Inl TimeoutExpired, kill_result = Inl NoSuchProcess\<rparr>"

definition live :: "nat \<Rightarrow> proc" where
  "live n = \<lparr>pid = n, name_result = Inr ''ns3-sim'', term_result = Inr (), wait_result = Inr (),
             kill_result = Inr ()\<rparr>"

definition table :: ps_world where
  "table = \<lparr>process = (\<lambda>n. if n = 7 then Inl NoSuchProcess else Inr (live n)),
            children = (\<lambda>n. Inr []),
            gone = (\<lambda>t n. True)\<rparr>"


section \<open>Build/Launch Driver\<close>

text \<open>
  \<^verbatim>\<open>build_ns3\<close>, \<^verbatim>\<open>check_program_installed\<close> and \<^verbatim>\<open>run_single_ns3\<close> (lines
  118--160). What the operating system answers is an input: the process environment,
  the exit code of the build command in a directory, the listing of a directory,
  the lookup of a program on the search path, and the two path normalisations.
\<close>

datatype py_error = RuntimeError string | TypeError | OSError | IndexError | SystemExit int

record os_world =
  environ :: "(string \<times> string) list"
  build_returncode :: "string \<Rightarrow> int"
  listdir :: "string \<Rightarrow> string list option"
  which :: "string \<Rightarrow> string option"
  abspath :: "string \<Rightarrow> string"
  resolve :: "string \<Rightarrow> string \<Rightarrow> string"

text \<open>A spawned simulator process: the arguments \<^verbatim>\<open>subprocess.Popen\<close> was given.\<close>

record popen =
  p_cmd :: string
  p_cwd :: string
  p_env :: "(string \<times> string) list"
  p_stdout_pipe :: bool

datatype os_event = Stdout string | BuildProc string | SimProc popen

text \<open>The simulator processes among the events of a call.\<close>

fun spawned :: "os_event list \<Rightarrow> popen list" where
  "spawned [] = []"
| "spawned (SimProc p # es) = p # spawned es"
| "spawned (e # es) = spawned es"

text \<open>\<^verbatim>\<open>os.path.join\<close> on POSIX paths.\<close>

definition join2 :: "string \<Rightarrow> string \<Rightarrow> string" where
  "join2 a b =
     (if starts_with ''/'' b then b
      else if a = [] \<or> last a = CHR ''/'' then a @ b
      else a @ ''/'' @ b)"

definition path_join :: "string \<Rightarrow> string list \<Rightarrow> string" where
  "path_join a ps = foldl join2 a ps"

text \<open>\<^verbatim>\<open>d.update(other)\<close> and \<^verbatim>\<open>d[k] = v\<close> on dictionaries.\<close>

definition dict_update :: "('k \<times> 'v) list \<Rightarrow> ('k \<times> 'v) list \<Rightarrow> ('k \<times> 'v) list" where
  "dict_update d other = foldl (\<lambda>d (k, v). AList.update k v d) d other"

text \<open>\<^verbatim>\<open>s.capitalize()\<close> on ASCII text.\<close>

definition upper_char :: "char \<Rightarrow> char" where
  "upper_char c = (let n = of_char c :: nat in if 97 \<le> n \<and> n \<le> 122 then char_of (n - 32) else c)"

definition lower_char :: "char \<Rightarrow> char" where
  "lower_char c = (let n = of_char c :: nat in if 65 \<le> n \<and> n \<le> 90 then char_of (n + 32) else c)"

definition capitalize :: "string \<Rightarrow> string" where
  "capitalize s = (case s of [] \<Rightarrow> [] | c # cs \<Rightarrow> upper_char c # map lower_char cs)"

definition build_ns3 :: "os_world \<Rightarrow> string \<Rightarrow> os_event list \<times> bool" where
  "build_ns3 w path =
     ([Stdout ''=== NS3AI: BUILDING NS3 ==='', BuildProc path], build_returncode w path = 0)"

definition check_program_installed :: "os_world \<Rightarrow> string \<Rightarrow> os_event list \<times> (py_error + string)" where
  "check_program_installed w program_name =
     (case which w program_name of
        None \<Rightarrow> ([Stdout (''Executable '' @ [CHR 0x27] @ capitalize program_name @ [CHR 0x27]
                           @ '' was not found'')],
                 Inl (SystemExit (- 1)))
      | Some program_path \<Rightarrow> ([], Inr program_path))"

text \<open>Lines 139--141: the merge is guarded by the truth value of \<open>env\<close>, the store is not.\<close>

definition inject_env :: "os_world \<Rightarrow> string \<Rightarrow> (string \<times> string) list option
    \<Rightarrow> py_error + (string \<times> string) list" where
  "inject_env w path env =
     (let env = (case env of
                   None \<Rightarrow> None
                 | Some [] \<Rightarrow> Some []
                 | Some (e # es) \<Rightarrow> Some (dict_update (e # es) (environ w)))
      in case env of
           None \<Rightarrow> Inl TypeError
         | Some d \<Rightarrow>
             Inr (AList.update ''LD_LIBRARY_PATH'' (abspath w (path_join path [''build'', ''lib''])) d))"

text \<open>Lines 148--153: the command wrapped in the profiler.\<close>

definition profile_cmd :: "os_world \<Rightarrow> setting_map option \<Rightarrow> string
    \<Rightarrow> os_event list \<times> (py_error + string)" where
  "profile_cmd w setting cmd =
     (case check_program_installed w ''perf'' of
        (ev, Inl e) \<Rightarrow> (ev, Inl e)
      | (ev, Inr perf_cmd) \<Rightarrow>
          let base_out_dir = (case setting of
                                None \<Rightarrow> ''.''
                              | Some m \<Rightarrow> (case map_of m ''outDir'' of
                                            None \<Rightarrow> ''.''
                                          | Some v \<Rightarrow> py_str v));
              perf_out_fp = resolve w base_out_dir ''perf.data'';
              perf_options = ''record -o '' @ perf_out_fp @ '' -g -e cpu-cycles,context-switches''
          in (ev, Inr (perf_cmd @ '' '' @ perf_options @ '' bash -c '' @ [CHR 0x27] @ cmd @ [CHR 0x27])))"

definition run_single_ns3 :: "os_world \<Rightarrow> string \<Rightarrow> string \<Rightarrow> setting_map option
    \<Rightarrow> (string \<times> string) list option \<Rightarrow> bool \<Rightarrow> bool \<Rightarrow> bool
    \<Rightarrow> os_event list \<times> (py_error + popen)" where
  "run_single_ns3 w path pname setting env show_output profile_ns3 build =
     (let (ev0, ok) = (if build then build_ns3 w path else ([], True)) in
      if build \<and> \<not> ok
      then (ev0, Inl (RuntimeError ''run_single_ns3(): requested to build ns3, but build failed!''))
      else
        case inject_env w path env of
          Inl e \<Rightarrow> (ev0, Inl e)
        | Inr env \<Rightarrow>
            let exec_path = path_join path [''build'', ''scratch''] in
            case listdir w (path_join exec_path [pname]) of
              None \<Rightarrow> (ev0, Inl OSError)
            | Some files \<Rightarrow>
                (case filter (starts_with ''ns'') files of
                   [] \<Rightarrow> (ev0, Inl IndexError)
                 | exec_name # _ \<Rightarrow>
                     let cmd = ''./'' @ pname @ ''/'' @ exec_name;
                         cmd = (case setting of
                                  Some (x # xs) \<Rightarrow> cmd @ get_setting (x # xs)
                                | _ \<Rightarrow> cmd);
                         (ev1, cmd) = (if profile_ns3 then profile_cmd w setting cmd
                                       else ([], Inr cmd))
                     in case cmd of
                          Inl e \<Rightarrow> (ev0 @ ev1, Inl e)
                        | Inr cmd \<Rightarrow>
                            let proc = \<lparr>p_cmd = cmd, p_cwd = exec_path, p_env = env,
                                        p_stdout_pipe = (\<not> show_output)\<rparr>
                            in (ev0 @ ev1 @ [SimProc proc], Inr proc)))"

text \<open>A machine on which the build fails in \<^verbatim>\<open>/opt/ns3\<close> and succeeds elsewhere.\<close>

definition host :: os_world where
  "host = \<lparr>environ = [(''PATH'', ''/usr/bin'')],
           build_returncode = (\<lambda>d. if d = ''/opt/ns3'' then 1 else 0),
           listdir = (\<lambda>d. Some [''CMakeFiles'', ''ns3-sim'']),
           which = (\<lambda>n. None),
           abspath = (\<lambda>p. p),
           resolve = (\<lambda>d f. path_join d [f])\<rparr>"


section \<open>Properties of the Settings Expander\<close>

lemma get_settings_Nil: "get_settings [] = ([('''', '''')], '''')"
  by (simp add: get_settings.simps)

lemma get_settings_snoc:
  "get_settings (m @ [(key, val)]) =
     (concat (map (\<lambda>v. map (extend_pair key v) (fst (get_settings m))) (values_of val)),
      strip_us (snd (get_settings m) @ ''_'' @ key))"
  unfolding extend_pair_def
  by (subst get_settings.simps) (simp add: case_prod_beta Let_def)







text \<open>On values that are not strings the two ways of counting agree.\<close>

lemma cardinality_spec_agrees:
  "(case v of VStr s \<Rightarrow> False | _ \<Rightarrow> True) \<Longrightarrow> cardinality v = cardinality_spec v"
  by (cases v) (simp_all add: cardinality_def cardinality_spec_def)

lemma concat_concat_map:
  "concat (concat (map f xs)) = concat (map (\<lambda>x. concat (f x)) xs)"
  by (induction xs) simp_all

lemma combinations_spec_snoc:
  "combinations_spec (m @ [(k, v)]) =
     concat (map (\<lambda>x. map (\<lambda>c. c @ [(k, x)]) (combinations_spec m)) (values_of v))"
proof (induction m)
  case Nil
  show ?case by simp
next
  case (Cons e m)
  obtain k' v' where e: "e = (k', v')" by (cases e)
  show ?case
    by (simp add: e Cons.IH map_concat comp_def concat_concat_map)
qed

text \<open>
  C2. The pairs come in the order of nested loops in which the keys removed earlier
  (at shallower recursion levels, that is the keys inserted later) form the outer loop
  and the key at hand the inner loop: the list \<^const>\<open>get_settings\<close> returns is the list of
  \<^const>\<open>combinations_spec\<close>, each combination rendered as its pair of fragments.
\<close>

theorem settings_order:
  "fst (get_settings m) = map render (combinations_spec m)"
proof (induction m rule: rev_induct)
  case Nil
  show ?case by (simp add: get_settings_Nil render_def)
next
  case (snoc e m)
  obtain k v where e: "e = (k, v)" by (cases e)
  show ?case
    by (simp add: e get_settings_snoc combinations_spec_snoc snoc.IH map_concat comp_def
          render_def)
qed

text \<open>
  Keys of two and three values give six pairs: the key \<open>b\<close>, removed first, changes
  slowest.
\<close>

theorem settings_order_witness:
  "fst (get_settings [(''a'', VList [VInt 1, VInt 2]), (''b'', VList [VInt 7, VInt 8, VInt 9])])
     = [('' --a=1 --b=7'', ''1_7''), ('' --a=2 --b=7'', ''2_7''),
        ('' --a=1 --b=8'', ''1_8''), ('' --a=2 --b=8'', ''2_8''),
        ('' --a=1 --b=9'', ''1_9''), ('' --a=2 --b=9'', ''2_9'')]"
proof -
  have r: "map render (combinations_spec
             [(''a'', VList [VInt 1, VInt 2]), (''b'', VList [VInt 7, VInt 8, VInt 9])])
     = [('' --a=1 --b=7'', ''1_7''), ('' --a=2 --b=7'', ''2_7''),
        ('' --a=1 --b=8'', ''1_8''), ('' --a=2 --b=8'', ''2_8''),
        ('' --a=1 --b=9'', ''1_9''), ('' --a=2 --b=9'', ''2_9'')]"
    by code_simp
  show ?thesis by (rule trans [OF settings_order r])
qed

text \<open>
  C3. For the map \<open>{a: [1, 2], b: 3}\<close> the expansion has exactly two pairs, both command
  fragments contain \<open>--b=3\<close>, the first contains \<open>--a=1\<close> and the second \<open>--a=2\<close>, and
  the file-name format is \<open>a_b\<close>: the key names in insertion order, each appended after
  the recursive call returns.
\<close>

theorem settings_example:
  "get_settings [(''a'', VList [VInt 1, VInt 2]), (''b'', VInt 3)]
     = ([('' --a=1 --b=3'', ''1_3''), ('' --a=2 --b=3'', ''2_3'')], ''a_b'')
   \<and> contains ''--b=3'' '' --a=1 --b=3'' \<and> contains ''--b=3'' '' --a=2 --b=3''
   \<and> contains ''--a=1'' '' --a=1 --b=3'' \<and> contains ''--a=2'' '' --a=2 --b=3''"
  by code_simp

text \<open>The format of that map is not \<open>b_a\<close>.\<close>

theorem settings_example_format_counterexample:
  "snd (get_settings [(''a'', VList [VInt 1, VInt 2]), (''b'', VInt 3)]) \<noteq> ''b_a''"
  by code_simp



section \<open>Properties of the Single-Setting Formatter\<close>

lemma get_setting_concat:
  "get_setting m = concat (map (\<lambda>(key, val). '' --'' @ key @ ''='' @ py_str val) m)"
proof -
  have "foldl (\<lambda>ret (key, val). ret @ '' --'' @ key @ ''='' @ py_str val) acc m
        = acc @ concat (map (\<lambda>(key, val). '' --'' @ key @ ''='' @ py_str val) m)" for acc
    by (induction m arbitrary: acc) (simp_all add: case_prod_beta)
  from this [of "''''"] show ?thesis by (simp add: get_setting_def)
qed

text \<open>
  C9. \<^const>\<open>get_setting\<close> is the concatenation, in the order of the entries, of one
  fragment \<open> --key=value\<close> per entry; a list value is one value, written in its textual
  form, and is not expanded. For \<open>{x: 1, y: 2}\<close> the result is \<open> --x=1 --y=2\<close>, with the
  leading space and no trailing one.
\<close>

theorem get_setting_format:
  "get_setting m = concat (map (\<lambda>(key, val). '' --'' @ key @ ''='' @ py_str val) m)
   \<and> get_setting [(''x'', VInt 1), (''y'', VInt 2)] = '' --x=1 --y=2''
   \<and> get_setting [(''k'', VList [VInt 1, VInt 2])] = '' --k=[1, 2]''"
proof (intro conjI)
  show "get_setting m = concat (map (\<lambda>(key, val). '' --'' @ key @ ''='' @ py_str val) m)"
    by (rule get_setting_concat)
  show "get_setting [(''x'', VInt 1), (''y'', VInt 2)] = '' --x=1 --y=2''"
    by code_simp
  show "get_setting [(''k'', VList [VInt 1, VInt 2])] = '' --k=[1, 2]''"
    by code_simp
qed


section \<open>Properties of the CPU Probe\<close>

lemma get_free_cpu_members:
  "\<forall>x \<in> set (get_free_cpu cpu_num perc sample).
      fst x < cpu_num \<and> fst x < length sample \<and> snd x = sample ! fst x \<and> snd x < perc"
  by (auto simp add: get_free_cpu_def set_zip)

lemma get_free_cpu_set:
  "set (get_free_cpu cpu_num perc sample)
     = {(i, sample ! i) | i. i < cpu_num \<and> i < length sample \<and> sample ! i < perc}"
proof -
  have "(\<exists>j. i = [0..<cpu_num] ! j \<and> u = sample ! j \<and> j < cpu_num \<and> j < length sample)
          \<longleftrightarrow> (i < cpu_num \<and> i < length sample \<and> u = sample ! i)" for i u
  proof
    assume "\<exists>j. i = [0..<cpu_num] ! j \<and> u = sample ! j \<and> j < cpu_num \<and> j < length sample"
    then show "i < cpu_num \<and> i < length sample \<and> u = sample ! i" by auto
  next
    assume "i < cpu_num \<and> i < length sample \<and> u = sample ! i"
    then have "i = [0..<cpu_num] ! i \<and> u = sample ! i \<and> i < cpu_num \<and> i < length sample"
      by simp
    then show "\<exists>j. i = [0..<cpu_num] ! j \<and> u = sample ! j \<and> j < cpu_num \<and> j < length sample"
      by (rule exI)
  qed
  then show ?thesis
    by (auto simp add: get_free_cpu_def set_zip)
qed

lemma get_free_cpu_sorted: "sorted (map snd (get_free_cpu cpu_num perc sample))"
  by (simp add: get_free_cpu_def)

text \<open>
  C8. Every pair \<^const>\<open>get_free_cpu\<close> returns is a core of the machine together with that
  core's own sampled utilisation, and this utilisation is strictly below the threshold:
  no core whose sample is at or above the threshold is returned. The returned sequence
  is sorted by ascending utilisation, and it holds exactly the sampled cores below the
  threshold.
\<close>

theorem free_cpu_below_sorted:
  "(\<forall>x \<in> set (get_free_cpu cpu_num perc sample).
      fst x < cpu_num \<and> fst x < length sample \<and> snd x = sample ! fst x \<and> snd x < perc)
   \<and> sorted (map snd (get_free_cpu cpu_num perc sample))
   \<and> set (get_free_cpu cpu_num perc sample)
       = {(i, sample ! i) | i. i < cpu_num \<and> i < length sample \<and> sample ! i < perc}"
  using get_free_cpu_members [of cpu_num perc sample] get_free_cpu_sorted [of cpu_num perc sample]
    get_free_cpu_set [of cpu_num perc sample]
  by blast

lemma get_free_cpu_example: "get_free_cpu 4 (20::int) [50, 3, 25, 1] = [(3, 1), (1, 3)]"
  by (simp add: get_free_cpu_def upt_rec)

theorem free_cpu_below_sorted_witness:
  "(3, 1) \<in> set (get_free_cpu 4 (20::int) [50, 3, 25, 1])
   \<and> fst (3::nat, 1::int) < 4
   \<and> snd (3::nat, 1::int) = [50, 3, 25, 1] ! fst (3::nat, 1::int)
   \<and> snd (3::nat, 1::int) < 20
   \<and> sorted (map snd (get_free_cpu 4 (20::int) [50, 3, 25, 1]))"
  using free_cpu_below_sorted [of 4 20 "[50, 3, 25, 1]"] get_free_cpu_example
  by simp


section \<open>Properties of the Bulk Launch Scheduler\<close>

lemma wait_cpus_Some:
  assumes "wait_cpus cpus s = Some s'"
  shows "RESERVE_CPU \<le> length cpus"
  using assms
proof (induction rule: wait_cpus.raw_induct [rotated 1, consumes 1, case_names step])
  case (step f cpus s s')
  then show ?case by (auto split: if_splits)
qed

lemma wait_cpus_diverges: "length cpus < RESERVE_CPU \<Longrightarrow> wait_cpus cpus s = None"
  using wait_cpus_Some [of cpus s] by (cases "wait_cpus cpus s") auto

lemma wait_cpus_returns: "RESERVE_CPU \<le> length cpus \<Longrightarrow> wait_cpus cpus s = Some s"
  by (subst wait_cpus.simps) simp

lemma launch_loop_diverges:
  "length (get_free_cpu cpu_num 20 (cpu_percent (polls s))) < RESERVE_CPU \<Longrightarrow>
     launch_loop cpu_num cpu_percent pname common ((args, fn) # rest) s = None"
  by (simp add: wait_cpus_diverges)

text \<open>When the first sample finds four idle cores the launch is pinned to the least busy one.\<close>

lemma run_bulk_ns3_idle_example:
  "run_bulk_ns3 4 (\<lambda>k. [5, 0, 7, 1]) ''/opt/ns3'' ''sim'' [(''t'', VInt 9)] [[(''a'', VInt 1)]] False fresh
     = Some \<lparr>polls = 1, slept = 0,
              issued = [''taskset -c 1 nohup ./waf --run sim --t=9 --a=1 > 1&'']\<rparr>"
proof -
  have p: "fst (get_settings [(''a'', VInt 1)]) = [('' --a=1'', ''1'')]"
    by code_simp
  have c: "get_setting [(''t'', VInt 9)] = '' --t=9''"
    by code_simp
  have f: "get_free_cpu 4 (20::real) [5, 0, 7, 1] = [(1, 0), (3, 1), (0, 5), (2, 7)]"
    by (simp add: get_free_cpu_def upt_rec)
  have n: "str_nat (Suc 0) = ''1''"
    by code_simp
  show ?thesis
    by (simp add: run_bulk_ns3_def p c f n fresh_def wait_cpus_returns RESERVE_CPU_def)
qed

text \<open>
  C4. On a machine of four cores where the first sample finds three cores idle and every
  later sample would find four, \<^const>\<open>run_bulk_ns3\<close> with one command to launch does not
  return and issues no launch: the wait loop tests the first sample for ever.
\<close>

theorem bulk_wait_never_repolls:
  "RESERVE_CPU \<le> length (get_free_cpu 4 20 (busy_then_idle 1))
   \<and> run_bulk_ns3 4 busy_then_idle ''/opt/ns3'' ''sim'' [] [[(''a'', VInt 1)]] False fresh = None"
proof
  show "RESERVE_CPU \<le> length (get_free_cpu 4 20 (busy_then_idle 1))"
    by (simp add: get_free_cpu_def busy_then_idle_def RESERVE_CPU_def upt_rec)
  have p: "fst (get_settings [(''a'', VInt 1)]) = [('' --a=1'', ''1'')]"
    by code_simp
  have l: "length (get_free_cpu 4 20 (busy_then_idle 0)) < RESERVE_CPU"
    by (simp add: get_free_cpu_def busy_then_idle_def RESERVE_CPU_def upt_rec)
  show "run_bulk_ns3 4 busy_then_idle ''/opt/ns3'' ''sim'' [] [[(''a'', VInt 1)]] False fresh = None"
    using l by (simp add: run_bulk_ns3_def p fresh_def wait_cpus_diverges)
qed


section \<open>Properties of the Build/Launch Driver\<close>

lemma inject_env_None: "inject_env w path None = Inl TypeError"
  by (simp add: inject_env_def)

lemma run_single_ns3_env_None:
  "run_single_ns3 w path pname setting None show_output profile_ns3 False = ([], Inl TypeError)"
  by (simp add: run_single_ns3_def inject_env_None)

lemma inject_env_nonempty:
  "\<exists>d. inject_env w path (Some (e # es)) = Inr d
       \<and> map_of d ''LD_LIBRARY_PATH'' = Some (abspath w (path_join path [''build'', ''lib'']))"
  by (simp add: inject_env_def update_conv')

text \<open>A launch with a caller-given environment, on a machine where the build succeeds.\<close>

lemma run_single_ns3_example:
  "run_single_ns3 host ''/srv/ns3'' ''sim'' (Some [(''x'', VInt 1)]) (Some [(''A'', ''1'')])
       False False True
     = ([Stdout ''=== NS3AI: BUILDING NS3 ==='', BuildProc ''/srv/ns3'',
         SimProc \<lparr>p_cmd = ''./sim/ns3-sim --x=1'', p_cwd = ''/srv/ns3/build/scratch'',
                   p_env = [(''A'', ''1''), (''PATH'', ''/usr/bin''),
                            (''LD_LIBRARY_PATH'', ''/srv/ns3/build/lib'')],
                   p_stdout_pipe = True\<rparr>],
        Inr \<lparr>p_cmd = ''./sim/ns3-sim --x=1'', p_cwd = ''/srv/ns3/build/scratch'',
              p_env = [(''A'', ''1''), (''PATH'', ''/usr/bin''),
                       (''LD_LIBRARY_PATH'', ''/srv/ns3/build/lib'')],
              p_stdout_pipe = True\<rparr>)"
proof -
  have c: "get_setting [(''x'', VInt 1)] = '' --x=1''"
    by code_simp
  show ?thesis
    by (simp add: run_single_ns3_def build_ns3_def host_def inject_env_def dict_update_def
          path_join_def join2_def c Let_def)
qed

text \<open>
  C5. Called with every optional argument at its default, so with no environment given,
  on a machine where the build succeeds, \<^const>\<open>run_single_ns3\<close> raises a type error at the
  store of the library path and spawns no simulator.
\<close>

theorem default_env_raises:
  "run_single_ns3 host ''/srv/ns3'' ''sim'' None None False False True
     = ([Stdout ''=== NS3AI: BUILDING NS3 ==='', BuildProc ''/srv/ns3''], Inl TypeError)"
  by (simp add: run_single_ns3_def build_ns3_def host_def inject_env_def)

text \<open>
  C6. When the build is requested and its exit code is not zero, \<^const>\<open>run_single_ns3\<close>
  raises the build-failure error right after the build, and no simulator process is
  spawned.
\<close>

theorem failed_build_spawns_nothing:
  assumes "build_returncode w path \<noteq> 0"
  shows "run_single_ns3 w path pname setting env show_output profile_ns3 True
           = ([Stdout ''=== NS3AI: BUILDING NS3 ==='', BuildProc path],
              Inl (RuntimeError ''run_single_ns3(): requested to build ns3, but build failed!''))
         \<and> spawned (fst (run_single_ns3 w path pname setting env show_output profile_ns3 True)) = []"
  using assms by (simp add: run_single_ns3_def build_ns3_def)

theorem failed_build_spawns_nothing_witness:
  "build_returncode host ''/opt/ns3'' \<noteq> 0
   \<and> run_single_ns3 host ''/opt/ns3'' ''sim'' None (Some []) False False True
           = ([Stdout ''=== NS3AI: BUILDING NS3 ==='', BuildProc ''/opt/ns3''],
              Inl (RuntimeError ''run_single_ns3(): requested to build ns3, but build failed!''))
   \<and> spawned (fst (run_single_ns3 host ''/opt/ns3'' ''sim'' None (Some []) False False True)) = []"
proof -
  have h: "build_returncode host ''/opt/ns3'' \<noteq> 0" by (simp add: host_def)
  show ?thesis using h failed_build_spawns_nothing [OF h] by simp
qed


section \<open>Properties of the Process Tree Reaper\<close>

lemma loop_body_not_gone: "snd (loop_body c) \<noteq> Inl NoSuchProcess"
  by (simp add: loop_body_def split: prod.splits sum.splits)

lemma kill_loop_not_gone: "snd (kill_loop ch) \<noteq> Inl NoSuchProcess"
proof (induction ch)
  case Nil
  show ?case by simp
next
  case (Cons c ch)
  show ?case using loop_body_not_gone [of c] Cons.IH
    by (auto split: prod.splits sum.splits)
qed

lemma loop_body_vanished: "vanished_at_action c \<Longrightarrow> snd (loop_body c) = Inr ()"
  by (auto simp add: vanished_at_action_def loop_body_def try_body_def perf_branch_def
        perf_graceful_def perf_escalate_def Let_def split: sum.splits if_splits prod.splits)

lemma kill_loop_continues:
  "snd (loop_body c) = Inr () \<Longrightarrow>
     kill_loop (c # cs) = (fst (loop_body c) @ fst (kill_loop cs), snd (kill_loop cs))"
  by (cases "loop_body c") (simp add: case_prod_beta)

lemma kill_proc_tree_resolved:
  "to_process w p = Inr h \<Longrightarrow> children w (pid h) = Inr kids \<Longrightarrow>
     snd (kill_proc_tree w p timeout) \<noteq> Inl NoSuchProcess"
  using kill_loop_not_gone [of "h # kids"]
  by (auto simp add: kill_proc_tree_def Let_def simp del: kill_loop.simps
        split: prod.splits sum.splits)

text \<open>
  C7. For every process of the enumerated tree that is gone at the moment an action is
  taken on it, the escalation from the termination signal to the kill included, the
  loop skips the process and goes on with the rest; the loop never ends with the
  no-such-process error, and neither does the call once the root handle and its
  descendants have been obtained.
\<close>

theorem reaper_tolerates_vanished:
  "(vanished_at_action c \<longrightarrow>
      snd (loop_body c) = Inr ()
      \<and> kill_loop (c # cs) = (fst (loop_body c) @ fst (kill_loop cs), snd (kill_loop cs)))
   \<and> snd (kill_loop ch) \<noteq> Inl NoSuchProcess
   \<and> (to_process w p = Inr h \<and> children w (pid h) = Inr kids \<longrightarrow>
        snd (kill_proc_tree w p timeout) \<noteq> Inl NoSuchProcess)"
  using loop_body_vanished [of c] kill_loop_continues [of c cs] kill_loop_not_gone [of ch]
    kill_proc_tree_resolved [of w p h kids timeout]
  by blast

theorem reaper_tolerates_vanished_witness:
  "vanished_at_action ghost_perf
   \<and> kill_loop [ghost_perf, live 12] = (fst (loop_body ghost_perf) @ [Killed 12], Inr ())
   \<and> to_process table (Pid 1) = Inr (live 1)
   \<and> children table (pid (live 1)) = Inr []
   \<and> snd (kill_proc_tree table (Pid 1) None) \<noteq> Inl NoSuchProcess"
proof -
  have v: "vanished_at_action ghost_perf"
    by (simp add: vanished_at_action_def ghost_perf_def)
  have k: "kill_loop [live 12] = ([Killed 12], Inr ())"
    by (simp add: loop_body_def try_body_def live_def)
  have c: "children table (pid (live 1)) = Inr []"
    by (simp add: table_def)
  have t: "to_process table (Pid 1) = Inr (live 1)"
    by (simp add: to_process_def table_def)
  show ?thesis
    using v k c t
      reaper_tolerates_vanished [of ghost_perf "[live 12]" "[]" table "Pid 1" "live 1" "[]" None]
    by simp
qed

text \<open>
  Given the id of a process that has already exited, the call raises the
  no-such-process error: the handle is made outside the two \<^verbatim>\<open>try\<close> blocks.
\<close>

theorem reaper_root_vanished_counterexample:
  "snd (kill_proc_tree table (Pid 7) None) = Inl NoSuchProcess"
  by (simp add: kill_proc_tree_def to_process_def table_def)

end
